theory Spec2Isabelle
  imports Main
begin

section \<open>The speakeasy command pipeline\<close>

text \<open>
  A shallow embedding of \<^verbatim>\<open>src/functions/speakeasy/index.js\<close>. The file holds two
  variants of the handler: the pass-gated one (sliding-window rate limit, checkout, the
  compound door key) at its head, and an earlier one (single-slot cooldown, no passes)
  after it. The definitions of the first variant keep the names of the source; those of
  the second carry the suffix \<open>_v2\<close>.

  Every callback-passing stage \<^verbatim>\<open>(state, done)\<close> becomes a function from the pipeline
  state and the world (the tables and the trace of outward effects so far) to either a
  failure (\<^verbatim>\<open>done(err)\<close>) or a value (\<^verbatim>\<open>done(null, v)\<close>), with the new world.
  Timestamps are milliseconds since the epoch, as \<^verbatim>\<open>moment\<close> holds them, and a request
  reads one clock value \<open>now\<close>.
\<close>

subsection \<open>Data\<close>

record door =
  name :: string
  key :: string
  code :: string

definition N_PASSES :: nat where
  "N_PASSES = 10"

definition DOOR_CODES :: "door list" where
  "DOOR_CODES =
    [\<lparr>name = ''Brip West Outer'', key = ''bwo'', code = ''3768''\<rparr>,
     \<lparr>name = ''Brip West Inner'', key = ''bwi'', code = ''3766''\<rparr>,
     \<lparr>name = ''Brip Parking Lot'', key = ''bs'', code = ''3767''\<rparr>,
     \<lparr>name = ''Downtown Outer'', key = ''do'', code = ''3641''\<rparr>,
     \<lparr>name = ''Downtown Inner'', key = ''di'', code = ''3640''\<rparr>]"

record attempt =
  at :: int
  op :: string

text \<open>The \<^verbatim>\<open>speakeasy\<close> sub-document of a row of the table \<^verbatim>\<open>TFoSlackUsers\<close>;
  \<open>lastAccess\<close> is the field of the second variant.\<close>

record speakeasy_doc =
  enabled :: bool
  disableRateLimiting :: bool
  attempts :: "attempt list option"
  expires :: "int option"
  lastAccess :: "int option"

record user =
  uid :: string
  speakeasy :: "speakeasy_doc option"

record credential =
  username :: string
  password :: string

text \<open>The two tables: the items \<^verbatim>\<open>slack_auth_token\<close> and \<^verbatim>\<open>logins\<close> of
  \<^verbatim>\<open>SlackSpeakeasyData\<close> (\<open>None\<close> when the item is absent), and the rows of
  \<^verbatim>\<open>TFoSlackUsers\<close>.\<close>

record database =
  slack_auth_token :: "string option"
  logins_item :: "credential list option"
  users :: "user list"

datatype db_op =
    GetItem string string
  | UpdateItem string string string
  | Scan string

text \<open>What \<^verbatim>\<open>done\<close> receives as its error: a string written in the source, an error
  object handed over by a library, or nothing at all because an exception was thrown
  inside the callback.\<close>

datatype failure = Message string | Raw string | Thrown

datatype payload = Text string | ErrorObject string | NoText

datatype effect =
    Db db_op
  | SignIn string string
  | Peek string
  | Unlock string
  | Respond payload
  | Succeed payload
  | Uncaught

text \<open>The answer of an HTTP call: a transport error, or a body. \<open>NotJson\<close> is a body on
  which \<^verbatim>\<open>JSON.parse(body).field\<close> throws; \<open>Json v\<close> one on which it gives \<open>v\<close>
  (\<open>None\<close> for \<^verbatim>\<open>undefined\<close>).\<close>

datatype body = NotJson | Json "string option"

datatype reply = TransportError string | Reply body

text \<open>Everything outside the handler that a run depends on: the clock, which store
  calls fail, the random number drawn by \<open>Login\<close>, the answers and latencies (in
  milliseconds) of the lock service, and \<^verbatim>\<open>moment(x).from(moment())\<close>.\<close>

record env =
  now :: int
  db_error :: "db_op \<Rightarrow> string option"
  random :: nat
  sign_in :: "string \<Rightarrow> string \<Rightarrow> reply"
  peek :: "string \<Rightarrow> reply"
  peek_latency :: "string \<Rightarrow> nat"
  unlock :: "string \<Rightarrow> reply"
  unlock_latency :: "string \<Rightarrow> nat"
  from_now :: "int \<Rightarrow> int \<Rightarrow> string"

record world =
  db :: database
  trace :: "effect list"

record request =
  req_text :: string
  req_command :: string
  req_token :: "string option"
  req_user_id :: string

record pstate =
  args :: "string list"
  command :: string
  token :: "string option"
  user :: user
  canonicalToken :: "string option"
  logins :: "credential list"
  headers :: "string option"

subsection \<open>Helpers of the runtime\<close>

definition emit :: "effect \<Rightarrow> world \<Rightarrow> world" where
  "emit x w = w\<lparr>trace := trace w @ [x]\<rparr>"

text \<open>\<^verbatim>\<open>String.prototype.split\<close> with a one-character separator: never an empty list.\<close>

fun split :: "char \<Rightarrow> string \<Rightarrow> string list" where
  "split c [] = [[]]"
| "split c (x # xs) =
     (if x = c then [] # split c xs else (x # hd (split c xs)) # tl (split c xs))"

definition toLowerCase :: "string \<Rightarrow> string" where
  "toLowerCase s =
     map (\<lambda>c. if 65 \<le> (of_char c :: nat) \<and> (of_char c :: nat) \<le> 90
               then char_of ((of_char c :: nat) + 32) else c) s"

fun show_nat :: "nat \<Rightarrow> string" where
  "show_nat n =
     (if n < 10 then [char_of (48 + n)] else show_nat (n div 10) @ [char_of (48 + n mod 10)])"

definition show_field :: "string option \<Rightarrow> string" where
  "show_field v = (case v of None \<Rightarrow> ''undefined'' | Some s \<Rightarrow> s)"

text \<open>\<^verbatim>\<open>async.waterfall\<close>: the next task runs on the value of the previous one, and the
  first error ends the chain.\<close>

definition waterfall :: "(failure + 'a) \<times> world \<Rightarrow> ('a \<Rightarrow> world \<Rightarrow> (failure + 'b) \<times> world)
    \<Rightarrow> (failure + 'b) \<times> world" where
  "waterfall m f = (case m of (Inl x, w) \<Rightarrow> (Inl x, w) | (Inr a, w) \<Rightarrow> f a w)"

text \<open>\<^verbatim>\<open>_.get(user, 'speakeasy.<field>')\<close>: a missing sub-document gives
  \<^verbatim>\<open>undefined\<close>, which the callers test for truth.\<close>

definition get_enabled :: "user \<Rightarrow> bool" where
  "get_enabled u = (case speakeasy u of None \<Rightarrow> False | Some s \<Rightarrow> enabled s)"

definition get_disableRateLimiting :: "user \<Rightarrow> bool" where
  "get_disableRateLimiting u = (case speakeasy u of None \<Rightarrow> False | Some s \<Rightarrow> disableRateLimiting s)"

definition get_attempts :: "user \<Rightarrow> attempt list option" where
  "get_attempts u = (case speakeasy u of None \<Rightarrow> None | Some s \<Rightarrow> attempts s)"

text \<open>The store. \<^verbatim>\<open>updateItem\<close> with the expression \<^verbatim>\<open>set #s.#f = :v\<close> needs the row
  and its \<^verbatim>\<open>speakeasy\<close> map to exist; otherwise the store answers with an error.\<close>

definition getUser :: "string \<Rightarrow> database \<Rightarrow> user option" where
  "getUser k d = find (\<lambda>u. uid u = k) (users d)"

definition updateUser :: "string \<Rightarrow> (speakeasy_doc \<Rightarrow> speakeasy_doc) \<Rightarrow> database \<Rightarrow> database option" where
  "updateUser k f d =
     (case getUser k d of
        None \<Rightarrow> None
      | Some u \<Rightarrow>
          (case speakeasy u of
             None \<Rightarrow> None
           | Some s \<Rightarrow>
               Some (d\<lparr>users := map (\<lambda>v. if uid v = k
                                          then v\<lparr>speakeasy := map_option f (speakeasy v)\<rparr> else v)
                                   (users d)\<rparr>)))"

subsection \<open>The stages of the pipeline\<close>

definition GetHelp :: string where
  "GetHelp =
     ''*Controls access to the SpeakEasy*\<newline>''
   @ ''```\<newline>''
   @ ''/speakeasy help\<newline>''
   @ ''```\<newline>''
   @ ''_display this text_\<newline>''
   @ ''```\<newline>''
   @ ''/speakeasy status\<newline>''
   @ ''```\<newline>''
   @ ''_checks the status of our connection with the SpeakEasy and your checked-out pass_\<newline>''
   @ ''```\<newline>''
   @ ''/speakeasy checkout\<newline>''
   @ ''```\<newline>''
   @ ''_grants you a pass to access the SpeakEasy for 24 hours_\<newline>''
   @ ''```\<newline>''
   @ ''/speakeasy unlock {door}\<newline>''
   @ ''```\<newline>''
   @ ''_unlock a specific door_\<newline>\<newline>''
   @ ''*Doors*\<newline>''
   @ ''  - `bwo`: broad ripple > west side > outer\<newline>''
   @ ''  - `bwi`: broad ripple > west side > inner\<newline>''
   @ ''  - `bw`: broad ripple > west side > outer then inner on a time delay\<newline>''
   @ ''  - `bs`: broad ripple > south side (parking lot)\<newline>''
   @ ''  - `do`: downtown > outer\<newline>''
   @ ''  - `di`: downtown > inner\<newline>''
   @ ''\<newline>\<newline>''
   @ ''I'd recommend running `/speakeasy status` before making a trip to the SpeakEasy ''
   @ ''of your choice. If the status check comes back operational then you should be good to go.\<newline>''
   @ ''Some functionality of this app is rate-limited.\<newline>''
   @ ''Please keep in mind that you may stay in the SpeakEasy 24/7, but the doors to get in do lock ''
   @ ''at 10pm in Broad Ripple and a bit earlier Downtown. `/speakeasy status` will reflect this.\<newline>''
   @ ''Contact Mike with any questions or concerns.''"

definition GetSlackAuthToken :: "env \<Rightarrow> pstate \<Rightarrow> world \<Rightarrow> (failure + pstate) \<times> world" where
  "GetSlackAuthToken e st w =
     (let q = GetItem ''SlackSpeakeasyData'' ''slack_auth_token''; w1 = emit (Db q) w in
      case db_error e q of
        Some x \<Rightarrow> (Inl (Raw x), w1)
      | None \<Rightarrow>
          (case slack_auth_token (db w1) of
             None \<Rightarrow> (Inl (Message ''I can't confirm that this request is originating from Slack.''), w1)
           | Some v \<Rightarrow> (Inr (st\<lparr>canonicalToken := Some v\<rparr>), w1)))"

definition CheckSlackAuthToken :: "env \<Rightarrow> pstate \<Rightarrow> world \<Rightarrow> (failure + pstate) \<times> world" where
  "CheckSlackAuthToken e st w =
     (if canonicalToken st \<noteq> token st
      then (Inl (Message ''Cannot verify request originated from Slack... exiting.''), w)
      else (Inr st, w))"

definition GetCallingUser :: "env \<Rightarrow> pstate \<Rightarrow> world \<Rightarrow> (failure + pstate) \<times> world" where
  "GetCallingUser e st w =
     (let q = GetItem ''TFoSlackUsers'' (uid (user st)); w1 = emit (Db q) w in
      case db_error e q of
        Some x \<Rightarrow> (Inl (Raw x), w1)
      | None \<Rightarrow>
          (case getUser (uid (user st)) (db w1) of
             None \<Rightarrow> (Inl (Message (''I can't find a record of you in my database. ''
                        @ ''Please contact Mike to have your access to this service enabled.'')), w1)
           | Some u \<Rightarrow> (Inr (st\<lparr>user := u\<rparr>), w1)))"

text \<open>The test \<^verbatim>\<open>if (!user)\<close> of the source never fires: \<^verbatim>\<open>state.user\<close> is an object
  from the first task on.\<close>

definition CheckCallingUser :: "env \<Rightarrow> pstate \<Rightarrow> world \<Rightarrow> (failure + pstate) \<times> world" where
  "CheckCallingUser e st w =
     (if \<not> get_enabled (user st)
      then (Inl (Message ''Rollout of this service is currently limited, and your account is not enabled.''), w)
      else
        (case get_attempts (user st) of
           None \<Rightarrow> (Inr st, w)
         | Some as \<Rightarrow>
             if length as < 3 \<or> get_disableRateLimiting (user st) then (Inr st, w)
             else
               (let lastMinute = filter (\<lambda>a. now e - 60000 < at a
                        \<and> op a \<in> set [''checkout'', ''status'', ''unlock'', ''open'']) as in
                if 3 \<le> length lastMinute
                then (Inl (Message (''Requests to this service are limited to 3 every 60 seconds.\<newline>''
                        @ ''Please wait for a few seconds and try again.\<newline>''
                        @ ''This request has not counted against your 3 requests; ''
                        @ ''only successful `checkout`, `status`, and `unlock` requests count.'')), w)
                else (Inr st, w))))"

text \<open>\<^verbatim>\<open>unshift\<close> changes the list held by the state in place when there is one; a fresh
  \<^verbatim>\<open>[]\<close> is not attached to the state. What is stored is the list cut to five.\<close>

definition RegisterUserAttempt :: "env \<Rightarrow> pstate \<Rightarrow> world \<Rightarrow> (failure + pstate) \<times> world" where
  "RegisterUserAttempt e st w =
     (let entry = \<lparr>at = now e, op = command st\<rparr>;
          unshifted = entry # (case get_attempts (user st) of None \<Rightarrow> [] | Some as \<Rightarrow> as);
          st1 = (case get_attempts (user st) of
                   None \<Rightarrow> st
                 | Some as \<Rightarrow> st\<lparr>user := (user st)\<lparr>speakeasy :=
                       map_option (\<lambda>s. s\<lparr>attempts := Some unshifted\<rparr>) (speakeasy (user st))\<rparr>\<rparr>);
          previousAttempts = (if 5 < length unshifted then take 5 unshifted else unshifted);
          q = UpdateItem ''TFoSlackUsers'' (uid (user st)) ''speakeasy.attempts'';
          w1 = emit (Db q) w in
      case db_error e q of
        Some x \<Rightarrow> (Inl (Raw x), w1)
      | None \<Rightarrow>
          (case updateUser (uid (user st)) (\<lambda>s. s\<lparr>attempts := Some previousAttempts\<rparr>) (db w1) of
             None \<Rightarrow> (Inl (Raw ''ValidationException''), w1)
           | Some d \<Rightarrow> (Inr st1, w1\<lparr>db := d\<rparr>)))"

definition GetLogins :: "env \<Rightarrow> pstate \<Rightarrow> world \<Rightarrow> (failure + pstate) \<times> world" where
  "GetLogins e st w =
     (let q = GetItem ''SlackSpeakeasyData'' ''logins''; w1 = emit (Db q) w in
      case db_error e q of
        Some x \<Rightarrow> (Inl (Raw x), w1)
      | None \<Rightarrow>
          (case logins_item (db w1) of
             None \<Rightarrow> (Inl (Message ''Valid KISI login list cannot be found. I can't proceed.''), w1)
           | Some v \<Rightarrow> (Inr (st\<lparr>logins := v\<rparr>), w1)))"

text \<open>\<^verbatim>\<open>Math.floor(Math.random() * n)\<close> is any index below \<open>n\<close>, and \<open>0\<close> when \<open>n\<close> is
  \<open>0\<close>; reading a field of the \<^verbatim>\<open>undefined\<close> found there throws.\<close>

definition Login :: "env \<Rightarrow> pstate \<Rightarrow> world \<Rightarrow> (failure + pstate) \<times> world" where
  "Login e st w =
     (let validCredentials = logins st;
          i = (if length validCredentials = 0 then 0 else random e mod length validCredentials) in
      if length validCredentials \<le> i then (Inl Thrown, emit Uncaught w)
      else
        (let login = validCredentials ! i;
             w1 = emit (SignIn (username login) (password login)) w in
         case sign_in e (username login) (password login) of
           TransportError x \<Rightarrow> (Inl (Raw x), w1)
         | Reply NotJson \<Rightarrow> (Inl Thrown, emit Uncaught w1)
         | Reply (Json secret) \<Rightarrow> (Inr (st\<lparr>headers := secret\<rparr>), w1)))"

subsection \<open>Concurrent calls\<close>

text \<open>\<^verbatim>\<open>async.map\<close> starts the iteratee on every item at once and writes each result at
  the index of its item when its callback arrives; the callbacks arrive in the order of
  the latencies of the calls. An error given to a callback ends the map with that error.
  A slot never written reads as \<^verbatim>\<open>undefined\<close>.\<close>

fun collect :: "(nat \<Rightarrow> failure + 'b) \<Rightarrow> nat list \<Rightarrow> 'b option list \<Rightarrow> failure + 'b option list" where
  "collect f [] results = Inr results"
| "collect f (i # order) results =
     (case f i of Inl x \<Rightarrow> Inl x | Inr v \<Rightarrow> collect f order (results[i := Some v]))"

definition completion_order :: "('a \<Rightarrow> nat) \<Rightarrow> 'a list \<Rightarrow> nat list" where
  "completion_order latency xs = sort_key (\<lambda>i. latency (xs ! i)) [0..<length xs]"

definition async_map :: "('a \<Rightarrow> nat) \<Rightarrow> ('a \<Rightarrow> failure + 'b) \<Rightarrow> 'a list \<Rightarrow> failure + 'b option list" where
  "async_map latency f xs =
     collect (\<lambda>i. f (xs ! i)) (completion_order latency xs) (replicate (length xs) None)"

text \<open>The \<^verbatim>\<open>_.reduce\<close> of the status handler: the lines joined by newlines.\<close>

fun reduce_lines :: "string option list \<Rightarrow> nat \<Rightarrow> string \<Rightarrow> string" where
  "reduce_lines [] i sofar = sofar"
| "reduce_lines (status # rest) i sofar =
     reduce_lines rest (Suc i) ((if i \<noteq> 0 then sofar @ ''\<newline>'' else sofar) @ show_field status)"

text \<open>The events of a handler that sets timers: each with the time, in milliseconds
  after the handler ran, at which it happens. The run lists them by time, and an uncaught
  exception ends the process there.\<close>

fun until_uncaught :: "effect list \<Rightarrow> effect list" where
  "until_uncaught [] = []"
| "until_uncaught (x # xs) = (if x = Uncaught then [x] else x # until_uncaught xs)"

definition timeline :: "(nat \<times> effect) list \<Rightarrow> effect list" where
  "timeline events = until_uncaught (map snd (sort_key fst events))"

subsection \<open>The command handlers\<close>

definition GetDoorStatus :: "env \<Rightarrow> pstate \<Rightarrow> door \<Rightarrow> failure + string" where
  "GetDoorStatus e st door =
     (case peek e (code door) of
        TransportError x \<Rightarrow>
          Inr ('':warning: '' @ name door @ '' [`'' @ key door @ ''`]: `A bad error occurred.`'')
      | Reply NotJson \<Rightarrow> Inl Thrown
      | Reply (Json message) \<Rightarrow>
          (let emoji = (if message = Some ''Access not restricted!'' then '':+1:'' else '':no_good:'') in
           Inr (emoji @ '' '' @ name door @ '' [`'' @ key door @ ''`]: `'' @ show_field message @ ''`'')))"

text \<open>\<^verbatim>\<open>_.filter(allUsers, (u) => moment(u.speakeasy.expires).isAfter(moment()))\<close>: a row
  without the sub-document throws; a row without a pass is not after now.\<close>

definition has_pass :: "env \<Rightarrow> user \<Rightarrow> bool" where
  "has_pass e u =
     (case speakeasy u of
        None \<Rightarrow> False
      | Some s \<Rightarrow> (case expires s of None \<Rightarrow> False | Some x \<Rightarrow> now e < x))"

definition havePasses :: "env \<Rightarrow> user list \<Rightarrow> failure + user list" where
  "havePasses e allUsers =
     (if \<exists>u \<in> set allUsers. speakeasy u = None then Inl Thrown
      else Inr (filter (has_pass e) allUsers))"

definition StatusHandler :: "env \<Rightarrow> pstate \<Rightarrow> world \<Rightarrow> (failure + string option) \<times> world" where
  "StatusHandler e st w =
     (let w1 = w\<lparr>trace := trace w @ map (\<lambda>d. Peek (code d)) DOOR_CODES\<rparr> in
      case async_map (\<lambda>d. peek_latency e (code d)) (GetDoorStatus e st) DOOR_CODES of
        Inl Thrown \<Rightarrow> (Inl Thrown, emit Uncaught w1)
      | Inl _ \<Rightarrow> (Inl (Message ''An error occurred... let Mike know.''), w1)
      | Inr doorStatuses \<Rightarrow>
          (let message = ''I'm reading the lock statuses as follows\<newline>''
                 @ reduce_lines doorStatuses 0 [] @ ''\<newline>'';
               q = Scan ''TFoSlackUsers'';
               w2 = emit (Db q) w1 in
           case db_error e q of
             Some x \<Rightarrow> (Inl (Raw x), w2)
           | None \<Rightarrow>
               (case havePasses e (users (db w2)) of
                  Inl x \<Rightarrow> (Inl Thrown, emit Uncaught w2)
                | Inr passes \<Rightarrow>
                    (let message1 = message @ ''Right now, there are '' @ show_nat (length passes)
                           @ '' passes checked out, out of '' @ show_nat N_PASSES @ '' total.\<newline>'' in
                     case speakeasy (user st) of
                       None \<Rightarrow> (Inl Thrown, emit Uncaught w2)
                     | Some s \<Rightarrow>
                         (case expires s of
                            Some userExpires \<Rightarrow>
                              (let inEnglish = from_now e userExpires (now e) in
                               if userExpires < now e
                               then (Inr (Some (message1 @ ''Your last pass expired '' @ inEnglish @ ''. ''
                                       @ ''Run `/speakeasy checkout` to get a new one.'')), w2)
                               else (Inr (Some (message1 @ ''You have an active pass which expires ''
                                       @ inEnglish @ ''.'')), w2))
                          | None \<Rightarrow>
                              (Inr (Some (message1 @ ''You haven't checked out a pass yet. ''
                                 @ ''Try `/speakeasy checkout` if you'd like one!'')), w2))))))"

definition CheckoutHandler :: "env \<Rightarrow> pstate \<Rightarrow> world \<Rightarrow> (failure + string option) \<times> world" where
  "CheckoutHandler e st w =
     (let q = Scan ''TFoSlackUsers''; w1 = emit (Db q) w in
      case db_error e q of
        Some x \<Rightarrow> (Inl (Raw x), w1)
      | None \<Rightarrow>
          (case havePasses e (users (db w1)) of
             Inl x \<Rightarrow> (Inl Thrown, emit Uncaught w1)
           | Inr passes \<Rightarrow>
               if N_PASSES \<le> length passes
               then (Inl (Message (''Unfortunately, it looks like all the current passes have been ''
                       @ ''checked out. Please try again within the next 24 hours.'')), w1)
               else
                 (let u = UpdateItem ''TFoSlackUsers'' (uid (user st)) ''speakeasy.expires'';
                      w2 = emit (Db u) w1 in
                  case db_error e u of
                    Some x \<Rightarrow> (Inl (Raw x), w2)
                  | None \<Rightarrow>
                      (case updateUser (uid (user st)) (\<lambda>s. s\<lparr>expires := Some (now e + 86400000)\<rparr>) (db w2) of
                         None \<Rightarrow> (Inl (Raw ''ValidationException''), w2)
                       | Some d \<Rightarrow>
                           (Inr (Some ''Your pass has been extended for 24 hours. Enjoy!''),
                            w2\<lparr>db := d\<rparr>)))))"

text \<open>The callback of the unlock call of one door: whatever came back, error or
  message, is relayed under the name of the door.\<close>

definition unlock_relay :: "env \<Rightarrow> door \<Rightarrow> effect" where
  "unlock_relay e door =
     (case unlock e (code door) of
        TransportError x \<Rightarrow> Respond (Text (name door @ '': '' @ x))
      | Reply NotJson \<Rightarrow> Uncaught
      | Reply (Json message) \<Rightarrow> Respond (Text (name door @ '': '' @ show_field message)))"

text \<open>One door of \<^verbatim>\<open>async.eachOf\<close> in the unlock handler: the timer fires after 10 ms
  for the first door and after 10000 ms for any later one, the call goes out then, and its
  answer is relayed when it arrives. The timers of all doors are set together.\<close>

definition unlock_events :: "env \<Rightarrow> nat \<Rightarrow> door \<Rightarrow> (nat \<times> effect) list" where
  "unlock_events e i door =
     (let timeout = (if 0 < i then 10000 else 10) in
      [(timeout, Unlock (code door)),
       (timeout + unlock_latency e (code door), unlock_relay e door)])"

definition eachOf_unlock :: "env \<Rightarrow> door option list \<Rightarrow> (nat \<times> effect) list" where
  "eachOf_unlock e doors =
     concat (map (\<lambda>(i, d). case d of
                    None \<Rightarrow> [(if 0 < i then 10000 else 10, Uncaught)]
                  | Some door \<Rightarrow> unlock_events e i door)
               (enumerate 0 doors))"

definition find_door :: "string \<Rightarrow> door option" where
  "find_door k = find (\<lambda>c. key c = k) DOOR_CODES"

definition UnlockHandler :: "env \<Rightarrow> pstate \<Rightarrow> world \<Rightarrow> (failure + string option) \<times> world" where
  "UnlockHandler e st w =
     (if length (args st) < 1 then (Inl (Message ''Please provide a door to unlock.''), w)
      else
        (let doorKey =
               (if args st ! 0 = ''bw''
                then Inr [find_door ''bwo'', find_door ''bwi'']
                else (case find_door (toLowerCase (args st ! 0)) of
                        None \<Rightarrow> Inl (''Sorry, but I don't recognize that door. ''
                                  @ ''Please run `/speakeasy help` for more info.'')
                      | Some door \<Rightarrow> Inr [Some door])) in
         case doorKey of
           Inl x \<Rightarrow> (Inl (Message x), w)
         | Inr doors \<Rightarrow>
             (case speakeasy (user st) of
                None \<Rightarrow> (Inl Thrown, emit Uncaught w)
              | Some s \<Rightarrow>
                  (case expires s of
                     None \<Rightarrow> (Inl (Message (''Please run `/speakeasy checkout` to get a pass ''
                               @ ''to access the SpeakEasy.'')), w)
                   | Some x \<Rightarrow>
                       if x < now e
                       then (Inl (Message (''Your pass has expired. Re-run `/speakeasy checkout` ''
                               @ ''to assign yourself a new pass.'')), w)
                       else
                         (let ran = timeline (eachOf_unlock e doors);
                              w1 = w\<lparr>trace := trace w @ ran\<rparr> in
                          if Uncaught \<in> set ran then (Inl Thrown, w1) else (Inr None, w1))))))"

definition GetDispatchHandler :: "env \<Rightarrow> pstate \<Rightarrow> world \<Rightarrow> (failure + string option) \<times> world" where
  "GetDispatchHandler e st w =
     (if command st = ''status'' then StatusHandler e st w
      else if command st = ''checkout'' then CheckoutHandler e st w
      else if command st = ''unlock'' \<or> command st = ''open'' then UnlockHandler e st w
      else (Inl (Message ''Command not recognized. Try `/speakeasy help` to start.''), w))"

subsection \<open>The entry point\<close>

definition pipeline :: "env \<Rightarrow> pstate \<Rightarrow> world \<Rightarrow> (failure + string option) \<times> world" where
  "pipeline e st w =
     waterfall (waterfall (waterfall (waterfall (waterfall (waterfall (waterfall
       (GetSlackAuthToken e st w)
       (CheckSlackAuthToken e))
       (GetCallingUser e))
       (CheckCallingUser e))
       (RegisterUserAttempt e))
       (GetLogins e))
       (Login e))
       (GetDispatchHandler e)"

text \<open>\<^verbatim>\<open>respond\<close> posts to the \<^verbatim>\<open>response_url\<close> of the request; the callers pass it a
  callback that lets the function succeed with an empty body, whatever the post gave.\<close>

definition respond :: "payload \<Rightarrow> world \<Rightarrow> world" where
  "respond message w = emit (Respond message) w"

definition finish :: "world \<Rightarrow> world" where
  "finish w = emit (Succeed (Text [])) w"

definition handle :: "env \<Rightarrow> request option \<Rightarrow> database \<Rightarrow> world" where
  "handle e event_body d =
     (let w = \<lparr>db = d, trace = []\<rparr> in
      case event_body of
        None \<Rightarrow> w
      | Some body \<Rightarrow>
          (let textSplit = split CHR '' '' (req_text body) in
           if length textSplit = 0
           then finish (respond (Text (''I didn't catch that... try to run `/speakeasy help` ''
                  @ ''for info on how to use this command.'')) w)
           else if textSplit ! 0 = ''help'' then finish (respond (Text GetHelp) w)
           else
             (case pipeline e \<lparr>args = textSplit, command = req_command body, token = req_token body,
                     user = \<lparr>uid = req_user_id body, speakeasy = None\<rparr>,
                     canonicalToken = None, logins = [], headers = None\<rparr> w of
                (Inl Thrown, w1) \<Rightarrow> w1
              | (Inl (Message err), w1) \<Rightarrow> finish (respond (Text err) w1)
              | (Inl (Raw err), w1) \<Rightarrow> finish (respond (ErrorObject err) w1)
              | (Inr None, w1) \<Rightarrow> finish (respond NoText w1)
              | (Inr (Some message), w1) \<Rightarrow> finish (respond (Text message) w1))))"

subsection \<open>The second variant: one request every 60 seconds, no passes\<close>

text \<open>Here every task is built by a call that fixes its arguments, the tasks hand each
  other values instead of one state, and \<^verbatim>\<open>respond\<close> is the synchronous answer of the
  function.\<close>

definition GetHelp_v2 :: string where
  "GetHelp_v2 =
     ''```\<newline>''
   @ ''Control access to the SpeakEasy.\<newline>''
   @ ''  /speakeasy help\<newline>''
   @ ''   display this text\<newline>''
   @ ''  /speakeasy status\<newline>''
   @ ''   checks the status of our connection\<newline>''
   @ ''   with the SpeakEasy\<newline>''
   @ ''  /speakeasy unlock {door}\<newline>''
   @ ''   unlock a specific door\<newline>''
   @ ''Doors\<newline>''
   @ ''  - bwo\<newline>''
   @ ''  broad ripple > west side > outer\<newline>''
   @ ''  - bwi\<newline>''
   @ ''  broad ripple > west side > inner\<newline>''
   @ ''  - bs\<newline>''
   @ ''  broad ripple > south side (parking lot)\<newline>''
   @ ''  - do\<newline>''
   @ ''  downtown > outer\<newline>''
   @ ''  - di\<newline>''
   @ ''  downtown > inner\<newline>''
   @ ''```\<newline>\<newline>''
   @ ''Generally, I'd recommend running `/speakeasy status` before making a trip to the SpeakEasy ''
   @ ''of your choice. If the status check comes back operational then you should be good to go.\<newline>\<newline>''
   @ ''You are limited to 1 unlock every 60 seconds.\<newline>\<newline>''
   @ ''It is totally possible that this thing would just... not work. That being said, it should be ''
   @ ''as available as the KISI app itself is.\<newline>\<newline>''
   @ ''Contact Mike with any questions or concerns.''"

definition GetSlackAuthToken_v2 :: "env \<Rightarrow> world \<Rightarrow> (failure + string) \<times> world" where
  "GetSlackAuthToken_v2 e w =
     (let q = GetItem ''SlackSpeakeasyData'' ''slack_auth_token''; w1 = emit (Db q) w in
      case db_error e q of
        Some x \<Rightarrow> (Inl (Raw x), w1)
      | None \<Rightarrow>
          (case slack_auth_token (db w1) of
             None \<Rightarrow> (Inl (Message ''I can't confirm that this request is originating from Slack.''), w1)
           | Some v \<Rightarrow> (Inr v, w1)))"

definition CheckSlackAuthToken_v2 :: "string option \<Rightarrow> string \<Rightarrow> world \<Rightarrow> (failure + unit) \<times> world" where
  "CheckSlackAuthToken_v2 fromRequest fromDynamo w =
     (if fromRequest \<noteq> Some fromDynamo
      then (Inl (Message ''Cannot verify request originated from Slack... exiting.''), w)
      else (Inr (), w))"

definition GetCallingUser_v2 :: "env \<Rightarrow> string \<Rightarrow> unit \<Rightarrow> world \<Rightarrow> (failure + user) \<times> world" where
  "GetCallingUser_v2 e userId u w =
     (let q = GetItem ''TFoSlackUsers'' userId; w1 = emit (Db q) w in
      case db_error e q of
        Some x \<Rightarrow> (Inl (Raw x), w1)
      | None \<Rightarrow>
          (case getUser userId (db w1) of
             None \<Rightarrow> (Inl (Message ''User not found in bot database; Apologies, but I can't proceed.''), w1)
           | Some usr \<Rightarrow> (Inr usr, w1)))"

text \<open>\<^verbatim>\<open>moment().diff(x, 'seconds')\<close> is the difference in milliseconds over 1000, cut
  towards zero.\<close>

definition diff_seconds :: "int \<Rightarrow> int \<Rightarrow> int" where
  "diff_seconds a b = sgn (a - b) * (\<bar>a - b\<bar> div 1000)"

definition CheckCallingUser_v2 :: "env \<Rightarrow> user \<Rightarrow> world \<Rightarrow> (failure + user) \<times> world" where
  "CheckCallingUser_v2 e usr w =
     (if \<not> get_enabled usr
      then (Inl (Message ''Rollout of this service is currently limited, and your account is not enabled.''), w)
      else
        (case (case speakeasy usr of None \<Rightarrow> None | Some s \<Rightarrow> lastAccess s) of
           None \<Rightarrow> (Inr usr, w)
         | Some t \<Rightarrow>
             (let diff = diff_seconds (now e) t in
              if diff < 60
              then (Inl (Message (''Requests to this service are limited to one every 60 seconds. ''
                      @ ''Please wait '' @ show_nat (nat (60 - diff)) @ '' seconds.'')), w)
              else (Inr usr, w))))"

definition RegisterUserAttempt_v2 :: "env \<Rightarrow> user \<Rightarrow> world \<Rightarrow> (failure + unit) \<times> world" where
  "RegisterUserAttempt_v2 e usr w =
     (let q = UpdateItem ''TFoSlackUsers'' (uid usr) ''speakeasy.lastAccess''; w1 = emit (Db q) w in
      case db_error e q of
        Some x \<Rightarrow> (Inl (Raw x), w1)
      | None \<Rightarrow>
          (case updateUser (uid usr) (\<lambda>s. s\<lparr>lastAccess := Some (now e)\<rparr>) (db w1) of
             None \<Rightarrow> (Inl (Raw ''ValidationException''), w1)
           | Some d \<Rightarrow> (Inr (), w1\<lparr>db := d\<rparr>)))"

definition GetLogins_v2 :: "env \<Rightarrow> unit \<Rightarrow> world \<Rightarrow> (failure + credential list) \<times> world" where
  "GetLogins_v2 e u w =
     (let q = GetItem ''SlackSpeakeasyData'' ''logins''; w1 = emit (Db q) w in
      case db_error e q of
        Some x \<Rightarrow> (Inl (Raw x), w1)
      | None \<Rightarrow>
          (case logins_item (db w1) of
             None \<Rightarrow> (Inl (Message ''Valid KISI login list cannot be found. I can't proceed.''), w1)
           | Some v \<Rightarrow> (Inr v, w1)))"

text \<open>This \<open>Login\<close> parses the body before it looks at the error, so a transport error,
  which comes with no body, throws as well.\<close>

definition Login_v2 :: "env \<Rightarrow> credential list \<Rightarrow> world \<Rightarrow> (failure + string option) \<times> world" where
  "Login_v2 e validCredentials w =
     (let i = (if length validCredentials = 0 then 0 else random e mod length validCredentials) in
      if length validCredentials \<le> i then (Inl Thrown, emit Uncaught w)
      else
        (let login = validCredentials ! i;
             w1 = emit (SignIn (username login) (password login)) w in
         case sign_in e (username login) (password login) of
           TransportError x \<Rightarrow> (Inl Thrown, emit Uncaught w1)
         | Reply NotJson \<Rightarrow> (Inl Thrown, emit Uncaught w1)
         | Reply (Json secret) \<Rightarrow> (Inr secret, w1)))"

definition GetDoorStatus_v2 :: "env \<Rightarrow> string option \<Rightarrow> door \<Rightarrow> failure + string" where
  "GetDoorStatus_v2 e hdrs door =
     (case peek e (code door) of
        TransportError x \<Rightarrow>
          Inr (name door @ '' ['' @ key door @ '']:\<newline> A bad error occurred.'')
      | Reply NotJson \<Rightarrow> Inl Thrown
      | Reply (Json message) \<Rightarrow>
          Inr (name door @ '' ['' @ key door @ '']:\<newline> '' @ show_field message))"

text \<open>The status handler of this variant gives its text to \<^verbatim>\<open>done\<close> in the place of
  the error; the last callback of the pipeline answers with it all the same.\<close>

definition StatusHandler_v2 :: "env \<Rightarrow> string option \<Rightarrow> world \<Rightarrow> (failure + string option) \<times> world" where
  "StatusHandler_v2 e hdrs w =
     (let w1 = w\<lparr>trace := trace w @ map (\<lambda>d. Peek (code d)) DOOR_CODES\<rparr> in
      case async_map (\<lambda>d. peek_latency e (code d)) (GetDoorStatus_v2 e hdrs) DOOR_CODES of
        Inl Thrown \<Rightarrow> (Inl Thrown, emit Uncaught w1)
      | Inl _ \<Rightarrow> (Inl (Message ''An error occurred... let Mike know.''), w1)
      | Inr doorStatuses \<Rightarrow>
          (Inl (Message (''I'm reading the lock statuses as follows\<newline>''
             @ ''```\<newline>''
             @ reduce_lines doorStatuses 0 [] @ ''\<newline>''
             @ ''```\<newline>''
             @ ''If any of those look off, its possible your phone could still work ''
             @ ''to unlock it, but not guaranteed.'')), w1))"

definition UnlockHandler_v2 :: "env \<Rightarrow> string option \<Rightarrow> string option \<Rightarrow> world
    \<Rightarrow> (failure + string option) \<times> world" where
  "UnlockHandler_v2 e doorKey hdrs w =
     (case (case doorKey of None \<Rightarrow> None | Some k \<Rightarrow> find_door k) of
        None \<Rightarrow> (Inl (Message (''Sorry, but I don't recognize that door. ''
                  @ ''Please run `/speakeasy help` for more info.'')), w)
      | Some door \<Rightarrow>
          (let w1 = emit (Unlock (code door)) w in
           case unlock e (code door) of
             TransportError x \<Rightarrow> (Inl (Raw x), w1)
           | Reply NotJson \<Rightarrow> (Inl Thrown, emit Uncaught w1)
           | Reply (Json message) \<Rightarrow> (Inr message, w1)))"

definition GetDispatchHandler_v2 :: "env \<Rightarrow> string list \<Rightarrow> string option \<Rightarrow> world
    \<Rightarrow> (failure + string option) \<times> world" where
  "GetDispatchHandler_v2 e splitCommand =
     (if splitCommand ! 0 = ''status'' then StatusHandler_v2 e
      else if splitCommand ! 0 = ''unlock'' \<or> splitCommand ! 0 = ''open''
      then UnlockHandler_v2 e (if 1 < length splitCommand then Some (splitCommand ! 1) else None)
      else (\<lambda>hdrs w. (Inl (Message ''Command not recognized. Try `/speakeasy help` to start.''), w)))"

definition pipeline_v2 :: "env \<Rightarrow> request \<Rightarrow> string list \<Rightarrow> world \<Rightarrow> (failure + string option) \<times> world" where
  "pipeline_v2 e body textSplit w =
     waterfall (waterfall (waterfall (waterfall (waterfall (waterfall (waterfall
       (GetSlackAuthToken_v2 e w)
       (CheckSlackAuthToken_v2 (req_token body)))
       (GetCallingUser_v2 e (req_user_id body)))
       (CheckCallingUser_v2 e))
       (RegisterUserAttempt_v2 e))
       (GetLogins_v2 e))
       (Login_v2 e))
       (GetDispatchHandler_v2 e textSplit)"

definition respond_v2 :: "payload \<Rightarrow> world \<Rightarrow> world" where
  "respond_v2 message w = emit (Succeed message) w"

definition handle_v2 :: "env \<Rightarrow> request \<Rightarrow> database \<Rightarrow> world" where
  "handle_v2 e body d =
     (let w = \<lparr>db = d, trace = []\<rparr>;
          textSplit = split CHR '' '' (req_text body) in
      if length textSplit = 0
      then respond_v2 (Text (''I didn't catch that... try to run `/speakeasy help` ''
             @ ''for info on how to use this command.'')) w
      else if textSplit ! 0 = ''help'' then respond_v2 (Text GetHelp_v2) w
      else
        (case pipeline_v2 e body textSplit w of
           (Inl Thrown, w1) \<Rightarrow> w1
         | (Inl (Message err), w1) \<Rightarrow> respond_v2 (Text err) w1
         | (Inl (Raw err), w1) \<Rightarrow> respond_v2 (ErrorObject err) w1
         | (Inr None, w1) \<Rightarrow> respond_v2 NoText w1
         | (Inr (Some message), w1) \<Rightarrow> respond_v2 (Text message) w1))"

subsection \<open>Concrete runs\<close>

text \<open>A world in which the store and the lock service are both unreachable.\<close>

definition env_down :: env where
  "env_down =
     \<lparr>now = 0, db_error = (\<lambda>q. Some ''ServiceUnavailable''), random = 0,
      sign_in = (\<lambda>u p. TransportError ''ECONNREFUSED''),
      peek = (\<lambda>c. TransportError ''ECONNREFUSED''), peek_latency = (\<lambda>c. 0),
      unlock = (\<lambda>c. TransportError ''ECONNREFUSED''), unlock_latency = (\<lambda>c. 0),
      from_now = (\<lambda>a b. [])\<rparr>"

definition db_empty :: database where
  "db_empty = \<lparr>slack_auth_token = None, logins_item = None, users = []\<rparr>"

text \<open>A world in which every call is answered at once and every door opens; the clock
  stands at 1000000 ms.\<close>

definition env_up :: env where
  "env_up =
     \<lparr>now = 1000000, db_error = (\<lambda>q. None), random = 0,
      sign_in = (\<lambda>u p. Reply (Json (Some ''s3cr3t''))),
      peek = (\<lambda>c. Reply (Json (Some ''Access not restricted!''))), peek_latency = (\<lambda>c. 0),
      unlock = (\<lambda>c. Reply (Json (Some ''Unlocked!''))), unlock_latency = (\<lambda>c. 0),
      from_now = (\<lambda>a b. ''in a day'')\<rparr>"

text \<open>A member with an active pass and no attempts yet, and the tables that hold her.\<close>

definition member :: user where
  "member =
     \<lparr>uid = ''U1'',
      speakeasy = Some \<lparr>enabled = True, disableRateLimiting = False, attempts = None,
                        expires = Some 50000000, lastAccess = None\<rparr>\<rparr>"

definition db_one :: database where
  "db_one =
     \<lparr>slack_auth_token = Some ''tok'',
      logins_item = Some [\<lparr>username = ''bot@example.org'', password = ''pw''\<rparr>],
      users = [member]\<rparr>"

definition request_of :: "string \<Rightarrow> string \<Rightarrow> string option \<Rightarrow> request" where
  "request_of cmd txt tok = \<lparr>req_text = txt, req_command = cmd, req_token = tok, req_user_id = ''U1''\<rparr>"

text \<open>A member whose last five attempts are on record, three of them in the last
  minute, and the state of her request once the pipeline has fetched her row.\<close>

definition busy_member :: user where
  "busy_member =
     \<lparr>uid = ''U1'',
      speakeasy = Some \<lparr>enabled = True, disableRateLimiting = False,
        attempts = Some [\<lparr>at = 990000, op = ''status''\<rparr>, \<lparr>at = 980000, op = ''unlock''\<rparr>,
                         \<lparr>at = 970000, op = ''open''\<rparr>, \<lparr>at = 100, op = ''checkout''\<rparr>,
                         \<lparr>at = 50, op = ''status''\<rparr>],
        expires = Some 50000000, lastAccess = None\<rparr>\<rparr>"

definition db_busy :: database where
  "db_busy =
     \<lparr>slack_auth_token = Some ''tok'',
      logins_item = Some [\<lparr>username = ''bot@example.org'', password = ''pw''\<rparr>],
      users = [busy_member]\<rparr>"

definition state_of :: "user \<Rightarrow> string \<Rightarrow> string list \<Rightarrow> pstate" where
  "state_of u cmd ws =
     \<lparr>args = ws, command = cmd, token = Some ''tok'', user = u,
      canonicalToken = Some ''tok'', logins = [], headers = Some ''s3cr3t''\<rparr>"

text \<open>The same tables with an empty list of credentials.\<close>

definition db_no_credentials :: database where
  "db_no_credentials = \<lparr>slack_auth_token = Some ''tok'', logins_item = Some [], users = [member]\<rparr>"

text \<open>Tables in which ten members hold a pass that has not run out.\<close>

definition pass_holder :: "string \<Rightarrow> user" where
  "pass_holder k =
     \<lparr>uid = k,
      speakeasy = Some \<lparr>enabled = True, disableRateLimiting = False, attempts = None,
                        expires = Some 50000000, lastAccess = None\<rparr>\<rparr>"

definition db_full :: database where
  "db_full =
     \<lparr>slack_auth_token = Some ''tok'',
      logins_item = Some [\<lparr>username = ''bot@example.org'', password = ''pw''\<rparr>],
      users = map pass_holder [''U1'', ''U2'', ''U3'', ''U4'', ''U5'', ''U6'', ''U7'', ''U8'', ''U9'', ''U10'']\<rparr>"

text \<open>A world in which the doors answer a peek the later the earlier they stand in the
  catalog, and the call for the parking lot door fails in transport.\<close>

definition env_slow :: env where
  "env_slow =
     \<lparr>now = 1000000, db_error = (\<lambda>q. None), random = 0,
      sign_in = (\<lambda>u p. Reply (Json (Some ''s3cr3t''))),
      peek = (\<lambda>c. if c = ''3767'' then TransportError ''ETIMEDOUT''
                    else if c = ''3640'' then Reply (Json (Some ''Access restricted!''))
                    else Reply (Json (Some ''Access not restricted!''))),
      peek_latency = (\<lambda>c. if c = ''3768'' then 900 else if c = ''3766'' then 700
                    else if c = ''3767'' then 500 else if c = ''3641'' then 300 else 100),
      unlock = (\<lambda>c. Reply (Json (Some ''Unlocked!''))),
      unlock_latency = (\<lambda>c. if c = ''3768'' then 20000 else 100),
      from_now = (\<lambda>a b. ''in a day'')\<rparr>"

text \<open>A row of the users table that has never used this service: it has no
  \<^verbatim>\<open>speakeasy\<close> document. The tables of the ten pass holders and the tables of the one
  member, each with such a row beside them.\<close>

definition bare_row :: user where
  "bare_row = \<lparr>uid = ''U11'', speakeasy = None\<rparr>"

definition db_full_bare :: database where
  "db_full_bare = db_full\<lparr>users := users db_full @ [bare_row]\<rparr>"

definition db_one_bare :: database where
  "db_one_bare = db_one\<lparr>users := users db_one @ [bare_row]\<rparr>"

text \<open>A world in which the call for the parking lot door fails in transport and the
  inner downtown door answers with a body that is not JSON.\<close>

definition env_garbled :: env where
  "env_garbled =
     \<lparr>now = 1000000, db_error = (\<lambda>q. None), random = 0,
      sign_in = (\<lambda>u p. Reply (Json (Some ''s3cr3t''))),
      peek = (\<lambda>c. if c = ''3767'' then TransportError ''ETIMEDOUT''
                    else if c = ''3640'' then Reply NotJson
                    else Reply (Json (Some ''Access not restricted!''))),
      peek_latency = (\<lambda>c. 0),
      unlock = (\<lambda>c. Reply (Json (Some ''Unlocked!''))), unlock_latency = (\<lambda>c. 0),
      from_now = (\<lambda>a b. ''in a day'')\<rparr>"

section \<open>Properties\<close>

subsection \<open>Facts about the helpers\<close>

lemma split_nonempty: "split c s \<noteq> []"
  by (induction s) auto

subsection \<open>Help\<close>

text \<open>
  C4. A request whose text has \<^verbatim>\<open>help\<close> as its first token is answered with the help
  text and nothing else happens: the trace holds the answer alone, so no read of the
  store, no check of the token, no rate limit and no call to the lock service, whatever the
  token of the request and whatever the state or the availability of the store. Both
  variants of the handler do so.
\<close>

theorem help_bypasses_every_stage:
  assumes "split CHR '' '' (req_text body) ! 0 = ''help''"
  shows "handle e (Some body) d = \<lparr>db = d, trace = [Respond (Text GetHelp), Succeed (Text [])]\<rparr>
       \<and> handle_v2 e body d = \<lparr>db = d, trace = [Succeed (Text GetHelp_v2)]\<rparr>"
  using assms split_nonempty [of "CHR '' ''" "req_text body"]
  by (simp add: handle_def handle_v2_def respond_def finish_def respond_v2_def emit_def Let_def)

theorem help_bypasses_every_stage_witness:
  "split CHR '' '' (req_text (request_of ''/speakeasy'' ''help me'' None)) ! 0 = ''help''
   \<and> handle env_down (Some (request_of ''/speakeasy'' ''help me'' None)) db_empty
       = \<lparr>db = db_empty, trace = [Respond (Text GetHelp), Succeed (Text [])]\<rparr>
   \<and> handle_v2 env_down (request_of ''/speakeasy'' ''help me'' None) db_empty
       = \<lparr>db = db_empty, trace = [Succeed (Text GetHelp_v2)]\<rparr>"
proof -
  have first: "split CHR '' '' (req_text (request_of ''/speakeasy'' ''help me'' None)) ! 0 = ''help''"
    by (simp add: request_of_def)
  from help_bypasses_every_stage [OF first, of env_down db_empty] first
  show ?thesis by simp
qed

subsection \<open>Authorization\<close>

text \<open>
  C1. When a request enters the pipeline with a token that differs from the canonical
  token held in the settings table, the run consists of the read of that token and the
  relay of the rejection message: the pipeline ends in the authorization stage, the tables
  are as before, the users table is neither read nor updated and the lock service is not
  called.
\<close>

theorem token_mismatch_ends_at_authorization:
  assumes "split CHR '' '' (req_text body) ! 0 \<noteq> ''help''"
    and "db_error e (GetItem ''SlackSpeakeasyData'' ''slack_auth_token'') = None"
    and "slack_auth_token d = Some canonical"
    and "req_token body \<noteq> Some canonical"
  shows "handle e (Some body) d =
       \<lparr>db = d,
        trace = [Db (GetItem ''SlackSpeakeasyData'' ''slack_auth_token''),
                 Respond (Text ''Cannot verify request originated from Slack... exiting.''),
                 Succeed (Text [])]\<rparr>"
  using assms split_nonempty [of "CHR '' ''" "req_text body"]
  by (simp add: handle_def pipeline_def waterfall_def GetSlackAuthToken_def CheckSlackAuthToken_def
      respond_def finish_def emit_def Let_def)

theorem token_mismatch_ends_at_authorization_witness:
  "split CHR '' '' (req_text (request_of ''unlock'' ''bwo'' (Some ''forged''))) ! 0 \<noteq> ''help''
   \<and> db_error env_up (GetItem ''SlackSpeakeasyData'' ''slack_auth_token'') = None
   \<and> slack_auth_token db_one = Some ''tok''
   \<and> req_token (request_of ''unlock'' ''bwo'' (Some ''forged'')) \<noteq> Some ''tok''
   \<and> handle env_up (Some (request_of ''unlock'' ''bwo'' (Some ''forged''))) db_one =
       \<lparr>db = db_one,
        trace = [Db (GetItem ''SlackSpeakeasyData'' ''slack_auth_token''),
                 Respond (Text ''Cannot verify request originated from Slack... exiting.''),
                 Succeed (Text [])]\<rparr>"
proof -
  have h1: "split CHR '' '' (req_text (request_of ''unlock'' ''bwo'' (Some ''forged''))) ! 0 \<noteq> ''help''"
    by (simp add: request_of_def)
  have h2: "db_error env_up (GetItem ''SlackSpeakeasyData'' ''slack_auth_token'') = None"
    by (simp add: env_up_def)
  have h3: "slack_auth_token db_one = Some ''tok''"
    by (simp add: db_one_def)
  have h4: "req_token (request_of ''unlock'' ''bwo'' (Some ''forged'')) \<noteq> Some ''tok''"
    by (simp add: request_of_def)
  from token_mismatch_ends_at_authorization [OF h1 h2 h3 h4] h1 h2 h3 h4
  show ?thesis by simp
qed

subsection \<open>Rate limiting\<close>



text \<open>
  C3. A request that reaches the rate limiter (it is not a help request, its token is
  the canonical one, its user has a row and is enabled) from a user whose flag
  \<^verbatim>\<open>disableRateLimiting\<close> is not set and whose recorded attempts hold at least three with
  an operation of the allow-list in the last 60 seconds is answered with exactly the
  rate-limit message; the run is the two reads and the relay, so no attempt is recorded
  and the tables are as before.
\<close>

theorem rate_limited_request_records_nothing:
  assumes enter: "split CHR '' '' (req_text body) ! 0 \<noteq> ''help''"
    and auth: "db_error e (GetItem ''SlackSpeakeasyData'' ''slack_auth_token'') = None"
      "slack_auth_token d = Some canonical" "req_token body = Some canonical"
    and found: "db_error e (GetItem ''TFoSlackUsers'' (req_user_id body)) = None"
      "getUser (req_user_id body) d = Some u" "speakeasy u = Some s" "enabled s"
    and limited: "\<not> disableRateLimiting s" "attempts s = Some as"
      "3 \<le> length (filter (\<lambda>a. now e - 60000 < at a
              \<and> op a \<in> {''checkout'', ''status'', ''unlock'', ''open''}) as)"
  shows "handle e (Some body) d =
       \<lparr>db = d,
        trace = [Db (GetItem ''SlackSpeakeasyData'' ''slack_auth_token''),
                 Db (GetItem ''TFoSlackUsers'' (req_user_id body)),
                 Respond (Text (''Requests to this service are limited to 3 every 60 seconds.\<newline>''
                   @ ''Please wait for a few seconds and try again.\<newline>''
                   @ ''This request has not counted against your 3 requests; ''
                   @ ''only successful `checkout`, `status`, and `unlock` requests count.'')),
                 Succeed (Text [])]\<rparr>"
proof -
  have len: "\<not> length as < 3"
    using limited(3) length_filter_le [of "\<lambda>a. now e - 60000 < at a
              \<and> op a \<in> {''checkout'', ''status'', ''unlock'', ''open''}" as] by linarith
  show ?thesis
    using assms len split_nonempty [of "CHR '' ''" "req_text body"]
    by (simp add: handle_def pipeline_def waterfall_def GetSlackAuthToken_def CheckSlackAuthToken_def
        GetCallingUser_def CheckCallingUser_def get_enabled_def get_attempts_def
        get_disableRateLimiting_def respond_def finish_def emit_def Let_def)
qed

theorem rate_limited_request_records_nothing_witness:
  "split CHR '' '' (req_text (request_of ''status'' ''status'' (Some ''tok''))) ! 0 \<noteq> ''help''
   \<and> getUser (req_user_id (request_of ''status'' ''status'' (Some ''tok''))) db_busy = Some busy_member
   \<and> 3 \<le> length (filter (\<lambda>a. now env_up - 60000 < at a
              \<and> op a \<in> {''checkout'', ''status'', ''unlock'', ''open''})
           [\<lparr>at = 990000, op = ''status''\<rparr>, \<lparr>at = 980000, op = ''unlock''\<rparr>,
            \<lparr>at = 970000, op = ''open''\<rparr>, \<lparr>at = 100, op = ''checkout''\<rparr>,
            \<lparr>at = 50, op = ''status''\<rparr>])
   \<and> handle env_up (Some (request_of ''status'' ''status'' (Some ''tok''))) db_busy =
       \<lparr>db = db_busy,
        trace = [Db (GetItem ''SlackSpeakeasyData'' ''slack_auth_token''),
                 Db (GetItem ''TFoSlackUsers'' ''U1''),
                 Respond (Text (''Requests to this service are limited to 3 every 60 seconds.\<newline>''
                   @ ''Please wait for a few seconds and try again.\<newline>''
                   @ ''This request has not counted against your 3 requests; ''
                   @ ''only successful `checkout`, `status`, and `unlock` requests count.'')),
                 Succeed (Text [])]\<rparr>"
proof -
  let ?body = "request_of ''status'' ''status'' (Some ''tok'')"
  let ?as = "[\<lparr>at = 990000, op = ''status''\<rparr>, \<lparr>at = 980000, op = ''unlock''\<rparr>,
              \<lparr>at = 970000, op = ''open''\<rparr>, \<lparr>at = 100, op = ''checkout''\<rparr>,
              \<lparr>at = 50, op = ''status''\<rparr>]"
  let ?s = "\<lparr>enabled = True, disableRateLimiting = False, attempts = Some ?as,
        expires = Some 50000000, lastAccess = None\<rparr>"
  have h1: "split CHR '' '' (req_text ?body) ! 0 \<noteq> ''help''"
    by (simp add: request_of_def)
  have h2: "db_error env_up (GetItem ''SlackSpeakeasyData'' ''slack_auth_token'') = None"
    by (simp add: env_up_def)
  have h3: "slack_auth_token db_busy = Some ''tok''"
    by (simp add: db_busy_def)
  have h4: "req_token ?body = Some ''tok''"
    by (simp add: request_of_def)
  have h5: "db_error env_up (GetItem ''TFoSlackUsers'' (req_user_id ?body)) = None"
    by (simp add: env_up_def)
  have h6: "getUser (req_user_id ?body) db_busy = Some busy_member"
    by (simp add: getUser_def db_busy_def busy_member_def request_of_def)
  have h7: "speakeasy busy_member = Some ?s"
    by (simp add: busy_member_def)
  have h8: "enabled ?s" "\<not> disableRateLimiting ?s" "attempts ?s = Some ?as"
    by simp_all
  have h9: "3 \<le> length (filter (\<lambda>a. now env_up - 60000 < at a
              \<and> op a \<in> {''checkout'', ''status'', ''unlock'', ''open''}) ?as)"
    by (simp add: env_up_def)
  have r: "req_user_id ?body = ''U1''"
    by (simp add: request_of_def)
  from rate_limited_request_records_nothing [OF h1 h2 h3 h4 h5 h6 h7 h8 h9] h1 h6 h9 r
  show ?thesis by simp
qed



subsection \<open>Checkout\<close>

lemma has_pass_iff:
  "has_pass e u \<longleftrightarrow> (\<exists>s x. speakeasy u = Some s \<and> expires s = Some x \<and> now e < x)"
  by (auto simp: has_pass_def split: option.splits)

text \<open>
  On a users table whose rows all have their \<^verbatim>\<open>speakeasy\<close> document, a checkout
  dispatched while ten or more rows hold a pass that expires in the future fails with the
  message that all passes are checked out. The run is the scan alone: the tables are as
  before, so the pass of the calling user is not touched. The condition on the rows is
  needed: the filter of the handler reads \<^verbatim>\<open>u.speakeasy.expires\<close> with no guard, and
  a row without the document makes it throw (see the runs at the end).
\<close>

theorem checkout_at_capacity_is_refused:
  assumes "command st = ''checkout''"
    and "db_error e (Scan ''TFoSlackUsers'') = None"
    and "\<forall>u \<in> set (users (db w)). speakeasy u \<noteq> None"
    and "10 \<le> length (filter (\<lambda>u. \<exists>s x. speakeasy u = Some s \<and> expires s = Some x \<and> now e < x)
            (users (db w)))"
  shows "GetDispatchHandler e st w =
      (Inl (Message (''Unfortunately, it looks like all the current passes have been ''
              @ ''checked out. Please try again within the next 24 hours.'')),
       \<lparr>db = db w, trace = trace w @ [Db (Scan ''TFoSlackUsers'')]\<rparr>)"
proof -
  have same: "filter (has_pass e) (users (db w))
      = filter (\<lambda>u. \<exists>s x. speakeasy u = Some s \<and> expires s = Some x \<and> now e < x) (users (db w))"
    by (rule filter_cong) (simp_all add: has_pass_iff)
  have passes: "havePasses e (users (db w)) = Inr (filter (has_pass e) (users (db w)))"
    using assms(3) by (simp add: havePasses_def)
  show ?thesis
    using assms(1,2,4) passes same
    by (simp add: GetDispatchHandler_def CheckoutHandler_def emit_def Let_def N_PASSES_def)
qed

theorem checkout_at_capacity_is_refused_witness:
  "command (state_of (pass_holder ''U1'') ''checkout'' [''checkout'']) = ''checkout''
   \<and> list_all (\<lambda>u. speakeasy u \<noteq> None) (users db_full)
   \<and> 10 \<le> length (filter (\<lambda>u. \<exists>s x. speakeasy u = Some s \<and> expires s = Some x \<and> now env_up < x)
            (users db_full))
   \<and> GetDispatchHandler env_up (state_of (pass_holder ''U1'') ''checkout'' [''checkout''])
        \<lparr>db = db_full, trace = []\<rparr> =
      (Inl (Message (''Unfortunately, it looks like all the current passes have been ''
              @ ''checked out. Please try again within the next 24 hours.'')),
       \<lparr>db = db_full, trace = [Db (Scan ''TFoSlackUsers'')]\<rparr>)"
proof -
  let ?st = "state_of (pass_holder ''U1'') ''checkout'' [''checkout'']"
  let ?w = "\<lparr>db = db_full, trace = []\<rparr>"
  have h1: "command ?st = ''checkout''"
    by (simp add: state_of_def)
  have h2: "db_error env_up (Scan ''TFoSlackUsers'') = None"
    by (simp add: env_up_def)
  have h3: "\<forall>u \<in> set (users (db ?w)). speakeasy u \<noteq> None"
    by (simp add: db_full_def pass_holder_def)
  have h4: "10 \<le> length (filter (\<lambda>u. \<exists>s x. speakeasy u = Some s \<and> expires s = Some x \<and> now env_up < x)
            (users (db ?w)))"
    by (simp add: db_full_def pass_holder_def env_up_def)
  from checkout_at_capacity_is_refused [OF h1 h2 h3 h4] h1 h3 h4
  show ?thesis by (simp add: list_all_iff)
qed

subsection \<open>Status\<close>

lemma collect_all_answered:
  assumes "\<forall>i \<in> set order. f i = Inr (g i)"
  shows "collect f order results = Inr (fold (\<lambda>i a. a[i := Some (g i)]) order results)"
  using assms by (induction order arbitrary: results) simp_all

lemma length_fold_update: "length (fold (\<lambda>i a. a[i := h i]) order results) = length results"
  by (induction order arbitrary: results) simp_all

lemma nth_fold_update:
  assumes "j < length results"
  shows "fold (\<lambda>i a. a[i := h i]) order results ! j = (if j \<in> set order then h j else results ! j)"
  using assms
proof (induction order arbitrary: results rule: rev_induct)
  case Nil
  then show ?case by simp
next
  case (snoc i order)
  then show ?case by (cases "i = j") (simp_all add: length_fold_update)
qed

lemma async_map_all_answered:
  assumes "\<forall>x \<in> set xs. f x = Inr (g x)"
  shows "async_map latency f xs = Inr (map (\<lambda>x. Some (g x)) xs)"
proof -
  let ?order = "completion_order latency xs"
  have order: "set ?order = {0..<length xs}"
    by (simp add: completion_order_def)
  have "\<forall>i \<in> set ?order. f (xs ! i) = Inr (g (xs ! i))"
    using assms order by simp
  then have "async_map latency f xs
      = Inr (fold (\<lambda>i a. a[i := Some (g (xs ! i))]) ?order (replicate (length xs) None))"
    unfolding async_map_def by (rule collect_all_answered)
  moreover have "fold (\<lambda>i a. a[i := Some (g (xs ! i))]) ?order (replicate (length xs) None)
      = map (\<lambda>x. Some (g x)) xs"
    by (rule nth_equalityI) (simp_all add: length_fold_update nth_fold_update order)
  ultimately show ?thesis by simp
qed


lemma GetDoorStatus_answered:
  assumes "peek e (code d) \<noteq> Reply NotJson"
  shows "\<exists>l. GetDoorStatus e st d = Inr l"
  using assms by (auto simp: GetDoorStatus_def Let_def split: reply.splits body.splits)

text \<open>
  Whatever the latencies of the peek calls, and so whatever the order in which they
  complete, the status handler lists the doors in the order of the catalog: its message
  is the header, then the line of each door of \<open>DOOR_CODES\<close> in turn, then the part on
  passes. A door whose call fails in transport gets the warning line, a door that answers
  gets the line with its message, each line depending on the answer of its own door
  only, and the handler succeeds. This holds when no answer is an unreadable body, the
  scan of the users succeeds on rows that all have their \<^verbatim>\<open>speakeasy\<close> document, and
  the caller has hers. Both conditions are needed: without either the handler throws
  (see the runs at the end).
\<close>

theorem status_lists_doors_in_catalog_order:
  assumes parse: "\<forall>d \<in> set DOOR_CODES. peek e (code d) \<noteq> Reply NotJson"
    and scan: "db_error e (Scan ''TFoSlackUsers'') = None"
    and rows: "\<forall>u \<in> set (users (db w)). speakeasy u \<noteq> None"
    and caller: "speakeasy (user st) \<noteq> None"
  shows "\<exists>lines rest.
      map (GetDoorStatus e st) DOOR_CODES = map Inr lines
    \<and> StatusHandler e st w =
        (Inr (Some (''I'm reading the lock statuses as follows\<newline>''
           @ reduce_lines (map Some lines) 0 [] @ ''\<newline>'' @ rest)),
         \<lparr>db = db w,
          trace = trace w @ map (\<lambda>d. Peek (code d)) DOOR_CODES @ [Db (Scan ''TFoSlackUsers'')]\<rparr>)
    \<and> (\<forall>d \<in> set DOOR_CODES. \<forall>x. peek e (code d) = TransportError x \<longrightarrow>
         GetDoorStatus e st d
           = Inr ('':warning: '' @ name d @ '' [`'' @ key d @ ''`]: `A bad error occurred.`''))
    \<and> (\<forall>d \<in> set DOOR_CODES. \<forall>m. peek e (code d) = Reply (Json m) \<longrightarrow>
         GetDoorStatus e st d
           = Inr ((if m = Some ''Access not restricted!'' then '':+1:'' else '':no_good:'')
               @ '' '' @ name d @ '' [`'' @ key d @ ''`]: `'' @ show_field m @ ''`''))"
proof -
  define g where "g d = (case GetDoorStatus e st d of Inr l \<Rightarrow> l | Inl x \<Rightarrow> [])" for d
  have each: "\<forall>d \<in> set DOOR_CODES. GetDoorStatus e st d = Inr (g d)"
  proof
    fix d assume "d \<in> set DOOR_CODES"
    with parse have "peek e (code d) \<noteq> Reply NotJson" by blast
    from GetDoorStatus_answered [OF this, of st] obtain l where "GetDoorStatus e st d = Inr l"
      by blast
    then show "GetDoorStatus e st d = Inr (g d)"
      by (simp add: g_def)
  qed
  have lines: "map (GetDoorStatus e st) DOOR_CODES = map Inr (map g DOOR_CODES)"
    using each by simp
  have gathered: "async_map (\<lambda>d. peek_latency e (code d)) (GetDoorStatus e st) DOOR_CODES
      = Inr (map Some (map g DOOR_CODES))"
    using async_map_all_answered [OF each] by (simp add: comp_def)
  have passes: "havePasses e (users (db w)) = Inr (filter (has_pass e) (users (db w)))"
    using rows by (simp add: havePasses_def)
  from caller obtain s where s: "speakeasy (user st) = Some s" by auto
  have run: "\<exists>rest. StatusHandler e st w =
        (Inr (Some (''I'm reading the lock statuses as follows\<newline>''
           @ reduce_lines (map Some (map g DOOR_CODES)) 0 [] @ ''\<newline>'' @ rest)),
         \<lparr>db = db w,
          trace = trace w @ map (\<lambda>d. Peek (code d)) DOOR_CODES @ [Db (Scan ''TFoSlackUsers'')]\<rparr>)"
  proof (cases "expires s")
    case None
    show ?thesis
      unfolding StatusHandler_def
      by (rule exI [where x = "''Right now, there are ''
            @ show_nat (length (filter (has_pass e) (users (db w))))
            @ '' passes checked out, out of '' @ show_nat N_PASSES @ '' total.\<newline>''
            @ ''You haven't checked out a pass yet. ''
            @ ''Try `/speakeasy checkout` if you'd like one!''"])
        (simp add: gathered passes scan s None emit_def Let_def del: reduce_lines.simps show_nat.simps)
  next
    case (Some x)
    show ?thesis
    proof (cases "x < now e")
      case True
      show ?thesis
        unfolding StatusHandler_def
        by (rule exI [where x = "''Right now, there are ''
              @ show_nat (length (filter (has_pass e) (users (db w))))
              @ '' passes checked out, out of '' @ show_nat N_PASSES @ '' total.\<newline>''
              @ ''Your last pass expired '' @ from_now e x (now e) @ ''. ''
              @ ''Run `/speakeasy checkout` to get a new one.''"])
          (simp add: gathered passes scan s Some True emit_def Let_def
              del: reduce_lines.simps show_nat.simps)
    next
      case False
      show ?thesis
        unfolding StatusHandler_def
        by (rule exI [where x = "''Right now, there are ''
              @ show_nat (length (filter (has_pass e) (users (db w))))
              @ '' passes checked out, out of '' @ show_nat N_PASSES @ '' total.\<newline>''
              @ ''You have an active pass which expires '' @ from_now e x (now e) @ ''.''"])
          (simp add: gathered passes scan s Some False emit_def Let_def
              del: reduce_lines.simps show_nat.simps)
    qed
  qed
  have warned: "\<forall>d \<in> set DOOR_CODES. \<forall>x. peek e (code d) = TransportError x \<longrightarrow>
         GetDoorStatus e st d
           = Inr ('':warning: '' @ name d @ '' [`'' @ key d @ ''`]: `A bad error occurred.`'')"
    by (simp add: GetDoorStatus_def)
  have told: "\<forall>d \<in> set DOOR_CODES. \<forall>m. peek e (code d) = Reply (Json m) \<longrightarrow>
         GetDoorStatus e st d
           = Inr ((if m = Some ''Access not restricted!'' then '':+1:'' else '':no_good:'')
               @ '' '' @ name d @ '' [`'' @ key d @ ''`]: `'' @ show_field m @ ''`'')"
    by (simp add: GetDoorStatus_def Let_def)
  from run obtain rest where "StatusHandler e st w =
        (Inr (Some (''I'm reading the lock statuses as follows\<newline>''
           @ reduce_lines (map Some (map g DOOR_CODES)) 0 [] @ ''\<newline>'' @ rest)),
         \<lparr>db = db w,
          trace = trace w @ map (\<lambda>d. Peek (code d)) DOOR_CODES @ [Db (Scan ''TFoSlackUsers'')]\<rparr>)"
    by blast
  with lines warned told show ?thesis by blast
qed


theorem status_lists_doors_in_catalog_order_witness:
  "list_all (\<lambda>d. peek env_slow (code d) \<noteq> Reply NotJson) DOOR_CODES
   \<and> list_all (\<lambda>u. speakeasy u \<noteq> None) (users db_one)
   \<and> speakeasy (user (state_of member ''status'' [''status''])) \<noteq> None
   \<and> (\<exists>rest. StatusHandler env_slow (state_of member ''status'' [''status'']) \<lparr>db = db_one, trace = []\<rparr> =
        (Inr (Some (''I'm reading the lock statuses as follows\<newline>''
           @ '':+1: Brip West Outer [`bwo`]: `Access not restricted!`\<newline>''
           @ '':+1: Brip West Inner [`bwi`]: `Access not restricted!`\<newline>''
           @ '':warning: Brip Parking Lot [`bs`]: `A bad error occurred.`\<newline>''
           @ '':+1: Downtown Outer [`do`]: `Access not restricted!`\<newline>''
           @ '':no_good: Downtown Inner [`di`]: `Access restricted!`\<newline>''
           @ rest)),
         \<lparr>db = db_one,
          trace = [Peek ''3768'', Peek ''3766'', Peek ''3767'', Peek ''3641'', Peek ''3640'',
                   Db (Scan ''TFoSlackUsers'')]\<rparr>))"
proof -
  let ?st = "state_of member ''status'' [''status'']"
  let ?w = "\<lparr>db = db_one, trace = []\<rparr>"
  have h1: "\<forall>d \<in> set DOOR_CODES. peek env_slow (code d) \<noteq> Reply NotJson"
    by (simp add: DOOR_CODES_def env_slow_def)
  have h2: "db_error env_slow (Scan ''TFoSlackUsers'') = None"
    by (simp add: env_slow_def)
  have h3: "\<forall>u \<in> set (users (db ?w)). speakeasy u \<noteq> None"
    by (simp add: db_one_def member_def)
  have h4: "speakeasy (user ?st) \<noteq> None"
    by (simp add: state_of_def member_def)
  have answers: "map (GetDoorStatus env_slow ?st) DOOR_CODES =
      map Inr ['':+1: Brip West Outer [`bwo`]: `Access not restricted!`'',
               '':+1: Brip West Inner [`bwi`]: `Access not restricted!`'',
               '':warning: Brip Parking Lot [`bs`]: `A bad error occurred.`'',
               '':+1: Downtown Outer [`do`]: `Access not restricted!`'',
               '':no_good: Downtown Inner [`di`]: `Access restricted!`'']"
    by (simp add: GetDoorStatus_def DOOR_CODES_def env_slow_def show_field_def)
  from status_lists_doors_in_catalog_order [OF h1 h2 h3 h4]
  obtain lines rest where lines: "map (GetDoorStatus env_slow ?st) DOOR_CODES = map Inr lines"
    and run: "StatusHandler env_slow ?st ?w =
        (Inr (Some (''I'm reading the lock statuses as follows\<newline>''
           @ reduce_lines (map Some lines) 0 [] @ ''\<newline>'' @ rest)),
         \<lparr>db = db ?w,
          trace = trace ?w @ map (\<lambda>d. Peek (code d)) DOOR_CODES @ [Db (Scan ''TFoSlackUsers'')]\<rparr>)"
    by blast
  from lines answers have "map (Inr :: string \<Rightarrow> failure + string) lines =
      map Inr ['':+1: Brip West Outer [`bwo`]: `Access not restricted!`'',
               '':+1: Brip West Inner [`bwi`]: `Access not restricted!`'',
               '':warning: Brip Parking Lot [`bs`]: `A bad error occurred.`'',
               '':+1: Downtown Outer [`do`]: `Access not restricted!`'',
               '':no_good: Downtown Inner [`di`]: `Access restricted!`'']"
    by (simp only:)
  then have "lines =
       ['':+1: Brip West Outer [`bwo`]: `Access not restricted!`'',
        '':+1: Brip West Inner [`bwi`]: `Access not restricted!`'',
        '':warning: Brip Parking Lot [`bs`]: `A bad error occurred.`'',
        '':+1: Downtown Outer [`do`]: `Access not restricted!`'',
        '':no_good: Downtown Inner [`di`]: `Access restricted!`'']"
    by (rule map_injective) simp
  with run have "StatusHandler env_slow ?st ?w =
        (Inr (Some (''I'm reading the lock statuses as follows\<newline>''
           @ '':+1: Brip West Outer [`bwo`]: `Access not restricted!`\<newline>''
           @ '':+1: Brip West Inner [`bwi`]: `Access not restricted!`\<newline>''
           @ '':warning: Brip Parking Lot [`bs`]: `A bad error occurred.`\<newline>''
           @ '':+1: Downtown Outer [`do`]: `Access not restricted!`\<newline>''
           @ '':no_good: Downtown Inner [`di`]: `Access restricted!`\<newline>''
           @ rest)),
         \<lparr>db = db_one,
          trace = [Peek ''3768'', Peek ''3766'', Peek ''3767'', Peek ''3641'', Peek ''3640'',
                   Db (Scan ''TFoSlackUsers'')]\<rparr>)"
    by (simp add: show_field_def DOOR_CODES_def)
  with h1 h3 h4 show ?thesis by (auto simp: list_all_iff)
qed

subsection \<open>The compound key\<close>

lemma unlock_relay_answered:
  assumes "unlock e (code d) \<noteq> Reply NotJson"
  shows "\<exists>p. unlock_relay e d = Respond (Text p)"
  using assms by (auto simp: unlock_relay_def split: reply.splits body.splits)

lemma compound_schedule:
  "eachOf_unlock e [find_door ''bwo'', find_door ''bwi''] =
     [(10, Unlock ''3768''), (10 + unlock_latency e ''3768'', unlock_relay e (DOOR_CODES ! 0)),
      (10000, Unlock ''3766''), (10000 + unlock_latency e ''3766'', unlock_relay e (DOOR_CODES ! 1))]"
  by (simp add: eachOf_unlock_def unlock_events_def find_door_def DOOR_CODES_def)

lemma compound_timeline:
  assumes "a \<noteq> Uncaught" "b \<noteq> Uncaught"
  shows "timeline [(10, Unlock c), (10 + lo, a), (10000, Unlock c'), (10000 + li, b)] =
     (if 10 + lo \<le> 10000 then [Unlock c, a, Unlock c', b]
      else if 10 + lo \<le> 10000 + li then [Unlock c, Unlock c', a, b]
      else [Unlock c, Unlock c', b, a])"
  using assms by (auto simp: timeline_def)


text \<open>
  C6, as the handler has it. For the key \<^verbatim>\<open>bw\<close>, a pass that has not run out and
  answers that can be read, the handler sets both timers together: the call for the outer
  door goes out after 10 ms and the call for the inner door after 10000 ms, two calls in
  all, in this order. The answer of each door, a transport error as well, is relayed as a
  message of its own when it arrives, and the handler ends without an error. The two
  messages come outer first when the answer of the outer door arrives before the answer
  of the inner door, and inner first when it arrives after it.
\<close>

theorem compound_unlock_relays_on_completion:
  assumes key: "args st \<noteq> []" "args st ! 0 = ''bw''"
    and pass: "speakeasy (user st) = Some s" "expires s = Some x" "\<not> x < now e"
    and parse: "unlock e ''3768'' \<noteq> Reply NotJson" "unlock e ''3766'' \<noteq> Reply NotJson"
  shows "\<exists>ran p q.
      UnlockHandler e st w = (Inr None, \<lparr>db = db w, trace = trace w @ ran\<rparr>)
    \<and> eachOf_unlock e [find_door ''bwo'', find_door ''bwi''] =
        [(10, Unlock ''3768''), (10 + unlock_latency e ''3768'', Respond (Text p)),
         (10000, Unlock ''3766''), (10000 + unlock_latency e ''3766'', Respond (Text q))]
    \<and> unlock_relay e (DOOR_CODES ! 0) = Respond (Text p)
    \<and> unlock_relay e (DOOR_CODES ! 1) = Respond (Text q)
    \<and> filter (\<lambda>x. \<exists>c. x = Unlock c) ran = [Unlock ''3768'', Unlock ''3766'']
    \<and> (10 + unlock_latency e ''3768'' < 10000 + unlock_latency e ''3766'' \<longrightarrow>
         filter (\<lambda>x. \<exists>m. x = Respond m) ran = [Respond (Text p), Respond (Text q)])
    \<and> (10000 + unlock_latency e ''3766'' < 10 + unlock_latency e ''3768'' \<longrightarrow>
         filter (\<lambda>x. \<exists>m. x = Respond m) ran = [Respond (Text q), Respond (Text p)])"
proof -
  let ?lo = "unlock_latency e ''3768''" and ?li = "unlock_latency e ''3766''"
  have "unlock e (code (DOOR_CODES ! 0)) \<noteq> Reply NotJson"
    using parse(1) by (simp add: DOOR_CODES_def)
  from unlock_relay_answered [OF this] obtain p
    where p: "unlock_relay e (DOOR_CODES ! 0) = Respond (Text p)" by blast
  have "unlock e (code (DOOR_CODES ! 1)) \<noteq> Reply NotJson"
    using parse(2) by (simp add: DOOR_CODES_def)
  from unlock_relay_answered [OF this] obtain q
    where q: "unlock_relay e (DOOR_CODES ! 1) = Respond (Text q)" by blast
  let ?ran = "if 10 + ?lo \<le> 10000
      then [Unlock ''3768'', Respond (Text p), Unlock ''3766'', Respond (Text q)]
      else if 10 + ?lo \<le> 10000 + ?li
      then [Unlock ''3768'', Unlock ''3766'', Respond (Text p), Respond (Text q)]
      else [Unlock ''3768'', Unlock ''3766'', Respond (Text q), Respond (Text p)]"
  have schedule: "eachOf_unlock e [find_door ''bwo'', find_door ''bwi''] =
        [(10, Unlock ''3768''), (10 + ?lo, Respond (Text p)),
         (10000, Unlock ''3766''), (10000 + ?li, Respond (Text q))]"
    by (simp only: compound_schedule p q)
  have ran: "timeline (eachOf_unlock e [find_door ''bwo'', find_door ''bwi'']) = ?ran"
    unfolding schedule by (rule compound_timeline) simp_all
  let ?T = "timeline (eachOf_unlock e [find_door ''bwo'', find_door ''bwi''])"
  have quiet: "Uncaught \<notin> set ?T"
    by (simp only: ran) simp
  have "UnlockHandler e st w =
      (if Uncaught \<in> set ?T then (Inl Thrown, w\<lparr>trace := trace w @ ?T\<rparr>)
       else (Inr None, w\<lparr>trace := trace w @ ?T\<rparr>))"
    using key pass by (cases "args st") (simp_all add: UnlockHandler_def Let_def)
  with quiet have "UnlockHandler e st w = (Inr None, w\<lparr>trace := trace w @ ?T\<rparr>)"
    by (simp only: if_False)
  moreover have "w\<lparr>trace := trace w @ ?T\<rparr> = \<lparr>db = db w, trace = trace w @ ?T\<rparr>"
    by simp
  ultimately have "UnlockHandler e st w = (Inr None, \<lparr>db = db w, trace = trace w @ ?T\<rparr>)"
    by (simp only:)
  then have run: "UnlockHandler e st w = (Inr None, \<lparr>db = db w, trace = trace w @ ?ran\<rparr>)"
    by (simp only: ran)
  have calls: "filter (\<lambda>x. \<exists>c. x = Unlock c) ?ran = [Unlock ''3768'', Unlock ''3766'']"
    by simp
  have first: "10 + ?lo < 10000 + ?li \<longrightarrow>
      filter (\<lambda>x. \<exists>m. x = Respond m) ?ran = [Respond (Text p), Respond (Text q)]"
    by simp
  have second: "10000 + ?li < 10 + ?lo \<longrightarrow>
      filter (\<lambda>x. \<exists>m. x = Respond m) ?ran = [Respond (Text q), Respond (Text p)]"
    by simp
  from run schedule p q calls first second show ?thesis
    by blast
qed

text \<open>
  The claim C6 as stated fails when the outer door is slow: with 20 seconds for the
  answer of the outer door and 100 ms for the inner one, the message of the inner door is
  relayed first.
\<close>

theorem compound_unlock_relay_order_counterexample:
  "UnlockHandler env_slow (state_of member ''unlock'' [''bw'']) \<lparr>db = db_one, trace = []\<rparr> =
     (Inr None,
      \<lparr>db = db_one,
       trace = [Unlock ''3768'', Unlock ''3766'',
                Respond (Text ''Brip West Inner: Unlocked!''),
                Respond (Text ''Brip West Outer: Unlocked!'')]\<rparr>)"
  by (simp add: UnlockHandler_def state_of_def member_def env_slow_def find_door_def DOOR_CODES_def
      timeline_def eachOf_unlock_def unlock_events_def unlock_relay_def show_field_def Let_def)

theorem compound_unlock_relays_on_completion_witness:
  "args (state_of member ''unlock'' [''bw'']) ! 0 = ''bw''
   \<and> unlock env_up ''3768'' \<noteq> Reply NotJson \<and> unlock env_up ''3766'' \<noteq> Reply NotJson
   \<and> 10 + unlock_latency env_up ''3768'' < 10000 + unlock_latency env_up ''3766''
   \<and> (\<exists>ran. UnlockHandler env_up (state_of member ''unlock'' [''bw'']) \<lparr>db = db_one, trace = []\<rparr>
          = (Inr None, \<lparr>db = db_one, trace = ran\<rparr>)
        \<and> filter (\<lambda>x. \<exists>c. x = Unlock c) ran = [Unlock ''3768'', Unlock ''3766'']
        \<and> filter (\<lambda>x. \<exists>m. x = Respond m) ran =
            [Respond (Text ''Brip West Outer: Unlocked!''), Respond (Text ''Brip West Inner: Unlocked!'')])"
proof -
  let ?st = "state_of member ''unlock'' [''bw'']"
  let ?s = "\<lparr>enabled = True, disableRateLimiting = False, attempts = None,
             expires = Some 50000000, lastAccess = None\<rparr>"
  have k1: "args ?st \<noteq> []" and k2: "args ?st ! 0 = ''bw''"
    by (simp_all add: state_of_def)
  have p1: "speakeasy (user ?st) = Some ?s"
    by (simp add: state_of_def member_def)
  have p2: "expires ?s = Some 50000000"
    by simp
  have p3: "\<not> 50000000 < now env_up"
    by (simp add: env_up_def)
  have j1: "unlock env_up ''3768'' \<noteq> Reply NotJson" and j2: "unlock env_up ''3766'' \<noteq> Reply NotJson"
    by (simp_all add: env_up_def)
  have early: "10 + unlock_latency env_up ''3768'' < 10000 + unlock_latency env_up ''3766''"
    by (simp add: env_up_def)
  from compound_unlock_relays_on_completion [OF k1 k2 p1 p2 p3 j1 j2, of "\<lparr>db = db_one, trace = []\<rparr>"]
  obtain ran p q where
    run: "UnlockHandler env_up ?st \<lparr>db = db_one, trace = []\<rparr> = (Inr None, \<lparr>db = db_one, trace = ran\<rparr>)"
    and p: "unlock_relay env_up (DOOR_CODES ! 0) = Respond (Text p)"
    and q: "unlock_relay env_up (DOOR_CODES ! 1) = Respond (Text q)"
    and calls: "filter (\<lambda>x. \<exists>c. x = Unlock c) ran = [Unlock ''3768'', Unlock ''3766'']"
    and order: "10 + unlock_latency env_up ''3768'' < 10000 + unlock_latency env_up ''3766'' \<longrightarrow>
         filter (\<lambda>x. \<exists>m. x = Respond m) ran = [Respond (Text p), Respond (Text q)]"
    by auto
  from p have p': "p = ''Brip West Outer: Unlocked!''"
    by (simp add: unlock_relay_def env_up_def DOOR_CODES_def show_field_def)
  from q have q': "q = ''Brip West Inner: Unlocked!''"
    by (simp add: unlock_relay_def env_up_def DOOR_CODES_def show_field_def)
  from order early p' q' have "filter (\<lambda>x. \<exists>m. x = Respond m) ran =
      [Respond (Text ''Brip West Outer: Unlocked!''), Respond (Text ''Brip West Inner: Unlocked!'')]"
    by simp
  with run calls k2 j1 j2 early show ?thesis by blast
qed

subsection \<open>Runs on which the handler departs from its description\<close>

lemmas stage_defs = handle_def pipeline_def waterfall_def GetSlackAuthToken_def CheckSlackAuthToken_def
  GetCallingUser_def CheckCallingUser_def RegisterUserAttempt_def GetLogins_def Login_def
  GetDispatchHandler_def get_enabled_def get_attempts_def updateUser_def getUser_def
  get_disableRateLimiting_def respond_def finish_def emit_def Let_def

text \<open>
  C2. The dispatcher of the first variant switches on \<^verbatim>\<open>state.command\<close>, which the
  entry point fills from the field \<^verbatim>\<open>command\<close> of the request, the slash command
  itself, and not from the first word of the text. The request \<^verbatim>\<open>/speakeasy status\<close>
  of a member with a valid token passes every stage and is then answered that the command
  is not recognized.
\<close>

theorem dispatch_ignores_command_text:
  "trace (handle env_up (Some (request_of ''/speakeasy'' ''status'' (Some ''tok''))) db_one) =
     [Db (GetItem ''SlackSpeakeasyData'' ''slack_auth_token''),
      Db (GetItem ''TFoSlackUsers'' ''U1''),
      Db (UpdateItem ''TFoSlackUsers'' ''U1'' ''speakeasy.attempts''),
      Db (GetItem ''SlackSpeakeasyData'' ''logins''),
      SignIn ''bot@example.org'' ''pw'',
      Respond (Text ''Command not recognized. Try `/speakeasy help` to start.''),
      Succeed (Text [])]"
  by (simp add: stage_defs env_up_def db_one_def member_def request_of_def)

text \<open>
  C9. With the item \<^verbatim>\<open>logins\<close> present and its list empty, \<open>GetLogins\<close> succeeds and
  \<open>Login\<close> reads a field of the \<^verbatim>\<open>undefined\<close> it finds at index 0: the run ends in an
  uncaught exception after the read of the list, with no sign-in and with no message
  relayed.
\<close>

theorem empty_credential_pool_throws:
  "trace (handle env_up (Some (request_of ''status'' ''status'' (Some ''tok''))) db_no_credentials) =
     [Db (GetItem ''SlackSpeakeasyData'' ''slack_auth_token''),
      Db (GetItem ''TFoSlackUsers'' ''U1''),
      Db (UpdateItem ''TFoSlackUsers'' ''U1'' ''speakeasy.attempts''),
      Db (GetItem ''SlackSpeakeasyData'' ''logins''),
      Uncaught]"
  by (simp add: stage_defs env_up_def db_no_credentials_def member_def request_of_def)

text \<open>
  C8. The unlock handler relays the answer of each door itself and then calls
  \<^verbatim>\<open>done\<close> with neither error nor message, on which the last callback of the pipeline
  posts once more, without a text. An unlock of the single door \<^verbatim>\<open>bwo\<close> makes two
  posts to the callback address.
\<close>

theorem unlock_relays_twice:
  "trace (handle env_up (Some (request_of ''unlock'' ''bwo'' (Some ''tok''))) db_one) =
     [Db (GetItem ''SlackSpeakeasyData'' ''slack_auth_token''),
      Db (GetItem ''TFoSlackUsers'' ''U1''),
      Db (UpdateItem ''TFoSlackUsers'' ''U1'' ''speakeasy.attempts''),
      Db (GetItem ''SlackSpeakeasyData'' ''logins''),
      SignIn ''bot@example.org'' ''pw'',
      Unlock ''3768'',
      Respond (Text ''Brip West Outer: Unlocked!''),
      Respond NoText,
      Succeed (Text [])]"
  by (simp add: stage_defs env_up_def db_one_def member_def request_of_def UnlockHandler_def
      find_door_def DOOR_CODES_def toLowerCase_def timeline_def eachOf_unlock_def unlock_events_def
      unlock_relay_def show_field_def)

text \<open>
  C5. The filter that counts the passes reads \<^verbatim>\<open>u.speakeasy.expires\<close> of every row
  of the users table with no guard, while the check of the calling user reads the same
  document through a tolerant lookup. With ten rows that hold a pass expiring in the
  future and one more row without the document, a checkout passes every stage, scans the
  table and ends in an uncaught exception: the message that all passes are checked out is
  not relayed, and nothing else is.
\<close>

theorem checkout_at_capacity_throws_on_bare_row:
  "10 \<le> length (filter (has_pass env_up) (users db_full_bare))
   \<and> trace (handle env_up (Some (request_of ''checkout'' ''checkout'' (Some ''tok''))) db_full_bare) =
       [Db (GetItem ''SlackSpeakeasyData'' ''slack_auth_token''),
        Db (GetItem ''TFoSlackUsers'' ''U1''),
        Db (UpdateItem ''TFoSlackUsers'' ''U1'' ''speakeasy.attempts''),
        Db (GetItem ''SlackSpeakeasyData'' ''logins''),
        SignIn ''bot@example.org'' ''pw'',
        Db (Scan ''TFoSlackUsers''),
        Uncaught]"
  by (simp add: stage_defs CheckoutHandler_def havePasses_def has_pass_def N_PASSES_def
      env_up_def db_full_bare_def db_full_def bare_row_def pass_holder_def request_of_def)

text \<open>
  C7. The status handler runs the same unguarded filter after the peeks. With the call
  for the parking lot door failing in transport and one row of the users table without
  the document, the five peeks go out, the table is scanned and the run ends in an
  uncaught exception: no response is produced, not even the warning line of the door that
  failed.
\<close>

theorem status_throws_on_bare_row:
  "peek env_slow ''3767'' = TransportError ''ETIMEDOUT''
   \<and> trace (handle env_slow (Some (request_of ''status'' ''status'' (Some ''tok''))) db_one_bare) =
       [Db (GetItem ''SlackSpeakeasyData'' ''slack_auth_token''),
        Db (GetItem ''TFoSlackUsers'' ''U1''),
        Db (UpdateItem ''TFoSlackUsers'' ''U1'' ''speakeasy.attempts''),
        Db (GetItem ''SlackSpeakeasyData'' ''logins''),
        SignIn ''bot@example.org'' ''pw'',
        Peek ''3768'', Peek ''3766'', Peek ''3767'', Peek ''3641'', Peek ''3640'',
        Db (Scan ''TFoSlackUsers''),
        Uncaught]"
  by (simp add: stage_defs StatusHandler_def async_map_def completion_order_def GetDoorStatus_def
      havePasses_def DOOR_CODES_def show_field_def
      env_slow_def db_one_bare_def db_one_def bare_row_def member_def request_of_def)

text \<open>The status handler also parses the body of every peek with no guard: with one
  door failing in transport and another answering a body that is not JSON, the run ends in
  an uncaught exception before the scan.\<close>

lemma status_throws_on_unreadable_answer:
  "peek env_garbled ''3767'' = TransportError ''ETIMEDOUT''
   \<and> trace (handle env_garbled (Some (request_of ''status'' ''status'' (Some ''tok''))) db_one) =
       [Db (GetItem ''SlackSpeakeasyData'' ''slack_auth_token''),
        Db (GetItem ''TFoSlackUsers'' ''U1''),
        Db (UpdateItem ''TFoSlackUsers'' ''U1'' ''speakeasy.attempts''),
        Db (GetItem ''SlackSpeakeasyData'' ''logins''),
        SignIn ''bot@example.org'' ''pw'',
        Peek ''3768'', Peek ''3766'', Peek ''3767'', Peek ''3641'', Peek ''3640'',
        Uncaught]"
  by (simp add: stage_defs StatusHandler_def async_map_def completion_order_def GetDoorStatus_def
      DOOR_CODES_def show_field_def
      env_garbled_def db_one_def member_def request_of_def)

subsection \<open>Further facts and whole runs\<close>

text \<open>The dispatcher of the first variant looks at the command field alone; the one of
  the second variant looks at the first word of the text and hands the second word to the
  unlock handler.\<close>

lemma dispatch_on_command_field:
  assumes "command st \<notin> {''status'', ''checkout'', ''unlock'', ''open''}"
  shows "GetDispatchHandler e st w =
     (Inl (Message ''Command not recognized. Try `/speakeasy help` to start.''), w)"
  using assms by (simp add: GetDispatchHandler_def)

lemma dispatch_v2_on_first_token:
  "GetDispatchHandler_v2 e (''status'' # rest) = StatusHandler_v2 e"
  "GetDispatchHandler_v2 e (''unlock'' # k # rest) = UnlockHandler_v2 e (Some k)"
  "GetDispatchHandler_v2 e (''open'' # k # rest) = UnlockHandler_v2 e (Some k)"
  "GetDispatchHandler_v2 e [''unlock''] = UnlockHandler_v2 e None"
  "v \<notin> {''status'', ''unlock'', ''open''} \<Longrightarrow>
     GetDispatchHandler_v2 e (v # rest) hdrs w =
       (Inl (Message ''Command not recognized. Try `/speakeasy help` to start.''), w)"
  by (simp_all add: GetDispatchHandler_v2_def)

text \<open>A checkout at full capacity from the entry point on: the attempt is recorded,
  the pass is not touched.\<close>

lemma checkout_at_capacity_run:
  "handle env_up (Some (request_of ''checkout'' ''checkout'' (Some ''tok''))) db_full =
     \<lparr>db = db_full\<lparr>users := (pass_holder ''U1'')\<lparr>speakeasy :=
             Some \<lparr>enabled = True, disableRateLimiting = False,
                   attempts = Some [\<lparr>at = 1000000, op = ''checkout''\<rparr>],
                   expires = Some 50000000, lastAccess = None\<rparr>\<rparr> # tl (users db_full)\<rparr>,
      trace = [Db (GetItem ''SlackSpeakeasyData'' ''slack_auth_token''),
               Db (GetItem ''TFoSlackUsers'' ''U1''),
               Db (UpdateItem ''TFoSlackUsers'' ''U1'' ''speakeasy.attempts''),
               Db (GetItem ''SlackSpeakeasyData'' ''logins''),
               SignIn ''bot@example.org'' ''pw'',
               Db (Scan ''TFoSlackUsers''),
               Respond (Text (''Unfortunately, it looks like all the current passes have been ''
                 @ ''checked out. Please try again within the next 24 hours.'')),
               Succeed (Text [])]\<rparr>"
  by (simp add: stage_defs CheckoutHandler_def havePasses_def has_pass_def N_PASSES_def
      env_up_def db_full_def pass_holder_def request_of_def)

text \<open>The compound key from the entry point on, with a slow outer door.\<close>

lemma compound_unlock_run:
  "trace (handle env_slow (Some (request_of ''open'' ''bw'' (Some ''tok''))) db_one) =
     [Db (GetItem ''SlackSpeakeasyData'' ''slack_auth_token''),
      Db (GetItem ''TFoSlackUsers'' ''U1''),
      Db (UpdateItem ''TFoSlackUsers'' ''U1'' ''speakeasy.attempts''),
      Db (GetItem ''SlackSpeakeasyData'' ''logins''),
      SignIn ''bot@example.org'' ''pw'',
      Unlock ''3768'',
      Unlock ''3766'',
      Respond (Text ''Brip West Inner: Unlocked!''),
      Respond (Text ''Brip West Outer: Unlocked!''),
      Respond NoText,
      Succeed (Text [])]"
  by (simp add: stage_defs env_slow_def db_one_def member_def request_of_def UnlockHandler_def
      find_door_def DOOR_CODES_def timeline_def eachOf_unlock_def unlock_events_def
      unlock_relay_def show_field_def)

end
